theory Spec2Isabelle
  imports Main "HOL-Library.Word" "HOL-Library.Sublist"
begin

section \<open>goEmail: building and sending formatted emails\<close>

text \<open>
  A shallow embedding of \<^verbatim>\<open>goEmail.go\<close>. Go strings and byte slices are byte
  sequences, modelled as \<^typ>\<open>string\<close> (a list of 8-bit characters), so that \<open>len\<close> is
  \<^const>\<open>length\<close>. Methods with a pointer receiver take the receiver's value and, where they
  are consulted for what they leave behind, return it next to their result.
\<close>

subsection \<open>Bytes and the library functions the package calls\<close>

abbreviation CR :: char where "CR \<equiv> CHR 0x0D"
abbreviation LF :: char where "LF \<equiv> CHR 0x0A"
abbreviation (input) SP :: char where "SP \<equiv> CHR 0x20"
abbreviation (input) DQ :: char where "DQ \<equiv> CHR 0x22"
abbreviation CRLF :: string where "CRLF \<equiv> [CR, LF]"

text \<open>
  \<^verbatim>\<open>strings.Split(s, sep)\<close> for a separator of one byte: the pieces of \<open>s\<close> between
  the occurrences of the separator, so one piece more than there are separators; the
  empty string gives one empty piece.
\<close>

fun Split :: "string \<Rightarrow> char \<Rightarrow> string list" where
  "Split [] sep = [[]]"
| "Split (c # cs) sep =
     (if c = sep then [] # Split cs sep
      else (case Split cs sep of
              [] \<Rightarrow> [[c]]
            | w # ws \<Rightarrow> (c # w) # ws))"

text \<open>\<^verbatim>\<open>strings.Join(elems, sep)\<close>.\<close>

fun Join :: "string list \<Rightarrow> string \<Rightarrow> string" where
  "Join [] sep = []"
| "Join [x] sep = x"
| "Join (x # y # ys) sep = x @ sep @ Join (y # ys) sep"

text \<open>
  \<^verbatim>\<open>fmt.Sprintf("%x", b)\<close> for a byte slice: two lower-case hexadecimal digits for
  each byte, nothing between them.
\<close>

definition hexdigit :: "nat \<Rightarrow> char" where
  "hexdigit n = ''0123456789abcdef'' ! (n mod 16)"

definition hexbyte :: "8 word \<Rightarrow> string" where
  "hexbyte b = [hexdigit (unat b div 16), hexdigit (unat b mod 16)]"

definition Sprintf_x :: "8 word list \<Rightarrow> string" where
  "Sprintf_x bs = concat (map hexbyte bs)"

text \<open>The twenty bytes of a 160-bit digest, most significant first.\<close>

definition digest_bytes :: "160 word \<Rightarrow> 8 word list" where
  "digest_bytes d = map (\<lambda>i. ucast (drop_bit (8 * (19 - i)) d)) [0..<20]"

subsection \<open>The data model\<close>

text \<open>
  The interface \<^verbatim>\<open>TransferEncoder\<close>: a value that has the two methods. The encoders
  themselves live outside the package (the default one in
  \<^verbatim>\<open>github.com/stephens2424/quotedPrintable\<close>), so an encoder is any pair of the two,
  each a function of its argument alone. The constructors store the encoder they are
  given; the nil interface, on which the two calls in \<^verbatim>\<open>addBody\<close> would panic, is not
  a value of this type.
\<close>

record TransferEncoder =
  Encode :: "string \<Rightarrow> string"
  TransferEncodingType :: string

record emailBody =
  mimeType :: string
  bodyText :: string

record Email =
  To :: "string list"
  Cc :: "string list"
  Bcc :: "string list"
  From :: string
  Subject :: string
  emailBodies :: "emailBody list"
  encoder :: TransferEncoder

text \<open>
  What \<^verbatim>\<open>Format\<close> and \<^verbatim>\<open>MessageID\<close> read from outside the message: the SHA-1
  function of \<^verbatim>\<open>crypto/sha1\<close> (a 160-bit digest of a byte string), the text that
  \<^verbatim>\<open>time.Now().Format(time.RFC1123Z)\<close> returns at the call, and the text under which
  \<^verbatim>\<open>fmt\<close> prints the dynamic value of an encoder with the verb \<^verbatim>\<open>%+v\<close> (for a
  pointer, its address).
\<close>

record env =
  sha1 :: "string \<Rightarrow> 160 word"
  now_RFC1123Z :: string
  fmt_encoder :: "TransferEncoder \<Rightarrow> string"

text \<open>\<^verbatim>\<open>NewEmailWithEncoder\<close>: every field but the encoder has its zero value.\<close>

definition NewEmailWithEncoder :: "TransferEncoder \<Rightarrow> Email" where
  "NewEmailWithEncoder enc =
     \<lparr>To = [], Cc = [], Bcc = [], From = [], Subject = [], emailBodies = [], encoder = enc\<rparr>"

text \<open>\<^verbatim>\<open>NewEmail\<close>, given what \<^verbatim>\<open>quotedPrintable.NewEncoder()\<close> returns.\<close>

definition NewEmail :: "TransferEncoder \<Rightarrow> Email" where
  "NewEmail quotedPrintable_NewEncoder = NewEmailWithEncoder quotedPrintable_NewEncoder"

definition FormatMailbox :: "string \<Rightarrow> string \<Rightarrow> string" where
  "FormatMailbox address name =
     (if name = [] then address else name @ '' <'' @ address @ ''>'')"

definition AddRecipient :: "string \<Rightarrow> Email \<Rightarrow> Email" where
  "AddRecipient mailbox email = email\<lparr>To := To email @ [mailbox]\<rparr>"

definition AddCc :: "string \<Rightarrow> Email \<Rightarrow> Email" where
  "AddCc mailbox email = email\<lparr>Cc := Cc email @ [mailbox]\<rparr>"

definition AddBcc :: "string \<Rightarrow> Email \<Rightarrow> Email" where
  "AddBcc mailbox email = email\<lparr>Bcc := Bcc email @ [mailbox]\<rparr>"

definition AddBody :: "string \<Rightarrow> string \<Rightarrow> Email \<Rightarrow> Email" where
  "AddBody mimeType' body email =
     email\<lparr>emailBodies := emailBodies email @ [\<lparr>mimeType = mimeType', bodyText = body\<rparr>]\<rparr>"

definition AddHtmlBody :: "string \<Rightarrow> Email \<Rightarrow> Email" where
  "AddHtmlBody body email = AddBody ''text/html; charset=utf-8'' body email"

definition AddTextBody :: "string \<Rightarrow> Email \<Rightarrow> Email" where
  "AddTextBody body email = AddBody ''text/plain; charset=utf-8'' body email"

subsection \<open>The message identifier\<close>

text \<open>
  \<^verbatim>\<open>fmt.Sprintf("%+v", e)\<close> for the pointer \<open>e\<close> to an \<^verbatim>\<open>Email\<close>: an ampersand and
  the struct in braces, each field as \<open>name:value\<close>, the fields separated by one space; a
  slice in brackets with its elements separated by one space; a string as it is.
\<close>

definition Sprintf_v_slice :: "string list \<Rightarrow> string" where
  "Sprintf_v_slice xs = ''['' @ Join xs '' '' @ '']''"

definition Sprintf_v_emailBody :: "emailBody \<Rightarrow> string" where
  "Sprintf_v_emailBody b = ''{mimeType:'' @ mimeType b @ '' bodyText:'' @ bodyText b @ ''}''"

definition Sprintf_v :: "env \<Rightarrow> Email \<Rightarrow> string" where
  "Sprintf_v ev e =
     ''&{To:'' @ Sprintf_v_slice (To e) @
     '' Cc:'' @ Sprintf_v_slice (Cc e) @
     '' Bcc:'' @ Sprintf_v_slice (Bcc e) @
     '' From:'' @ From e @
     '' Subject:'' @ Subject e @
     '' emailBodies:'' @ Sprintf_v_slice (map Sprintf_v_emailBody (emailBodies e)) @
     '' encoder:'' @ fmt_encoder ev (encoder e) @ ''}''"

text \<open>
  \<^verbatim>\<open>MessageID\<close>: the result, and the message as the call leaves it. The hasher is local
  to the call.
\<close>

definition MessageID :: "env \<Rightarrow> Email \<Rightarrow> string \<times> Email" where
  "MessageID ev e =
     (let hasher_Sum = digest_bytes (sha1 ev (Sprintf_v ev e))
      in (Sprintf_x hasher_Sum, e))"

subsection \<open>Folding a header\<close>

text \<open>
  The loop of \<^verbatim>\<open>foldString\<close> over the words, on the three variables it updates:
  \<open>foldedBuffer\<close>, \<open>lineBuffer\<close> and \<open>lineLength\<close>. Go's \<open>int\<close> has 64 bits; the
  lengths added here are lengths of strings held in memory, far below \<open>2^63\<close>, so the
  sums are the mathematical ones.
\<close>

fun foldLoop ::
  "int \<Rightarrow> string list \<Rightarrow> string \<times> string \<times> int \<Rightarrow> string \<times> string \<times> int" where
  "foldLoop maxLength [] st = st"
| "foldLoop maxLength (word # ws) (foldedBuffer, lineBuffer, lineLength) =
     (let wordLength = int (length word)
      in if wordLength + lineLength + 1 \<le> maxLength
         then foldLoop maxLength ws
                (foldedBuffer, lineBuffer @ word @ '' '', lineLength + (wordLength + 1))
         else foldLoop maxLength ws
                (foldedBuffer @ lineBuffer @ CRLF @ '' '', word @ '' '', wordLength + 1))"

definition foldString :: "int \<Rightarrow> string \<Rightarrow> string \<Rightarrow> string" where
  "foldString maxLength prefix' s =
     (case foldLoop maxLength (Split s SP) ([], prefix', int (length prefix')) of
        (foldedBuffer, lineBuffer, lineLength) \<Rightarrow> foldedBuffer @ lineBuffer @ CRLF)"

subsection \<open>Formatting\<close>

record formattedEmail =
  buffer :: string
  boundary :: string
  encoder :: TransferEncoder

definition addHeader :: "string \<Rightarrow> string \<Rightarrow> formattedEmail \<Rightarrow> formattedEmail" where
  "addHeader field val e =
     (if val \<noteq> [] then e\<lparr>buffer := buffer e @ foldString 78 (field @ '': '') val\<rparr> else e)"

definition addBody :: "emailBody \<Rightarrow> formattedEmail \<Rightarrow> formattedEmail" where
  "addBody emailBody fEmail =
     (let fEmail = fEmail\<lparr>buffer := buffer fEmail @ boundary fEmail @ CRLF\<rparr>;
          fEmail = addHeader ''Content-Type'' (mimeType emailBody) fEmail;
          fEmail = addHeader ''Content-Transfer-Encoding''
                     (TransferEncodingType (encoder fEmail)) fEmail;
          fEmail = fEmail\<lparr>buffer := buffer fEmail @ CRLF\<rparr>;
          encoded = Encode (encoder fEmail) (bodyText emailBody);
          fEmail = fEmail\<lparr>buffer := buffer fEmail @ encoded\<rparr>
      in fEmail\<lparr>buffer := buffer fEmail @ CRLF\<rparr>)"

text \<open>
  The body of \<^verbatim>\<open>Format\<close> up to its return statement: the local \<open>fEmail\<close> there,
  and the message as the statements leave it. The loop over the bodies is a left fold of
  \<^const>\<open>addBody\<close>.
\<close>

definition Format_run :: "env \<Rightarrow> Email \<Rightarrow> formattedEmail \<times> Email" where
  "Format_run ev email =
     (let fEmail = \<lparr>buffer = [], boundary = [], encoder = Email.encoder email\<rparr>;
          (messageID, email) = MessageID ev email;
          boundary' = ''=_'' @ messageID;
          fEmail = fEmail\<lparr>boundary := CRLF @ ''--'' @ boundary'\<rparr>;
          fEmail = addHeader ''To'' (Join (To email) '', '') fEmail;
          fEmail = addHeader ''Cc'' (Join (Cc email) '', '') fEmail;
          fEmail = addHeader ''Bcc'' (Join (Bcc email) '', '') fEmail;
          fEmail = addHeader ''From'' (From email) fEmail;
          fEmail = addHeader ''Subject'' (Subject email) fEmail;
          fEmail = addHeader ''Date'' (now_RFC1123Z ev) fEmail;
          fEmail = addHeader ''Content-Type''
                     (''multipart/alternative; boundary='' @ [DQ] @ boundary' @ [DQ]) fEmail;
          fEmail = addHeader ''MIME-Version'' ''1.0'' fEmail;
          fEmail = foldl (\<lambda>fEmail body. addBody body fEmail) fEmail (emailBodies email)
      in (fEmail, email))"

text \<open>\<^verbatim>\<open>Format\<close>: the bytes of the buffer, and the message as the call leaves it.\<close>

definition Format :: "env \<Rightarrow> Email \<Rightarrow> string \<times> Email" where
  "Format ev email = (case Format_run ev email of (fEmail, email') \<Rightarrow> (buffer fEmail, email'))"

text \<open>
  \<^verbatim>\<open>Send\<close>. The transport \<^verbatim>\<open>smtp.SendMail\<close> is outside the package: it is given the
  five arguments and the state of the world it acts on, and returns its error
  (\<^const>\<open>None\<close> for \<open>nil\<close>) and the world it leaves. \<^verbatim>\<open>Send\<close> returns that, and
  the message as the call leaves it. The arguments are evaluated before the one call of
  the transport; the sender and the To list are read from the message as \<^verbatim>\<open>Send\<close>
  receives it.
\<close>

type_synonym ('a, 'err, 'w) SendMail =
  "string \<Rightarrow> 'a \<Rightarrow> string \<Rightarrow> string list \<Rightarrow> string \<Rightarrow> 'w \<Rightarrow> 'err option \<times> 'w"

definition Send ::
  "env \<Rightarrow> ('a, 'err, 'w) SendMail \<Rightarrow> string \<Rightarrow> 'a \<Rightarrow> Email \<Rightarrow> 'w \<Rightarrow> ('err option \<times> Email) \<times> 'w" where
  "Send ev smtp_SendMail addr a email w =
     (let (msg, email') = Format ev email;
          (err, w') = smtp_SendMail addr a (From email) (To email) msg w
      in ((err, email'), w'))"

subsection \<open>Notions the properties are stated with\<close>

text \<open>
  The lines \<^const>\<open>foldLoop\<close> emits, in order, when it starts with \<open>line\<close> in
  \<open>lineBuffer\<close>: each line flushed into \<open>foldedBuffer\<close>, then the one left in
  \<open>lineBuffer\<close>. A line is taken as written, with the space that follows each of its
  words; the space that opens a continuation line belongs to the separator.
\<close>

fun foldLines :: "int \<Rightarrow> string list \<Rightarrow> string \<Rightarrow> string list" where
  "foldLines maxLength [] line = [line]"
| "foldLines maxLength (word # ws) line =
     (if int (length word) + int (length line) + 1 \<le> maxLength
      then foldLines maxLength ws (line @ word @ '' '')
      else line # foldLines maxLength ws (word @ '' ''))"

text \<open>
  The bound on a line as the specification words it: at most \<open>maxLength\<close> bytes, unless
  the line is a single word longer than that (with or without the space after it).
\<close>

definition line_within :: "int \<Rightarrow> string list \<Rightarrow> string \<Rightarrow> bool" where
  "line_within maxLength ws l \<longleftrightarrow>
     int (length l) \<le> maxLength \<or>
     list_ex (\<lambda>w. maxLength < int (length w) \<and> (l = w \<or> l = w @ '' '')) ws"

definition lines_within :: "int \<Rightarrow> string \<Rightarrow> string \<Rightarrow> bool" where
  "lines_within maxLength prefix' s \<longleftrightarrow>
     list_all (line_within maxLength (Split s SP)) (foldLines maxLength (Split s SP) prefix')"

text \<open>
  The bound the lines do keep, for a starting line \<open>p\<close> and a set \<open>W\<close> of words: a
  line is within the width, or is the starting line unchanged, or is one word of at least
  the width with its space.
\<close>

definition line_ok :: "int \<Rightarrow> string \<Rightarrow> string set \<Rightarrow> string \<Rightarrow> bool" where
  "line_ok m p W l \<longleftrightarrow>
     int (length l) \<le> m \<or> l = p \<or> (\<exists>w\<in>W. m \<le> int (length w) \<and> l = w @ '' '')"

text \<open>
  Re-joining a folded value, as the specification words it: the continuation markers
  (a CRLF followed by a space) are removed, the prefix and the final CRLF are dropped, and
  runs of spaces are restored to single spaces. A value is normalised by collapsing its
  runs of spaces to single spaces.
\<close>

fun remove_markers :: "string \<Rightarrow> string" where
  "remove_markers [] = []"
| "remove_markers (c # cs) =
     (if c = CR \<and> take 2 cs = [LF, SP] then remove_markers (drop 2 cs)
      else c # remove_markers cs)"

fun collapse_spaces :: "string \<Rightarrow> string" where
  "collapse_spaces [] = []"
| "collapse_spaces [c] = [c]"
| "collapse_spaces (a # b # cs) =
     (if a = SP \<and> b = SP then collapse_spaces (b # cs) else a # collapse_spaces (b # cs))"

definition rejoin :: "string \<Rightarrow> string \<Rightarrow> string" where
  "rejoin prefix' folded =
     (let joined = drop (length prefix') (remove_markers folded)
      in collapse_spaces (take (length joined - 2) joined))"

text \<open>
  What \<^const>\<open>addHeader\<close> appends for a field and a value, and what \<^const>\<open>addBody\<close>
  appends for a body, given the boundary token (without the leading \<open>CRLF --\<close>) and the
  encoder.
\<close>

definition header :: "string \<Rightarrow> string \<Rightarrow> string" where
  "header field val = (if val = [] then [] else foldString 78 (field @ '': '') val)"

definition part :: "string \<Rightarrow> TransferEncoder \<Rightarrow> emailBody \<Rightarrow> string" where
  "part boundary' enc b =
     CRLF @ ''--'' @ boundary' @ CRLF @
     header ''Content-Type'' (mimeType b) @
     header ''Content-Transfer-Encoding'' (TransferEncodingType enc) @
     CRLF @ Encode enc (bodyText b) @ CRLF"

definition top_headers :: "env \<Rightarrow> Email \<Rightarrow> string" where
  "top_headers ev email =
     header ''To'' (Join (To email) '', '') @
     header ''Cc'' (Join (Cc email) '', '') @
     header ''Bcc'' (Join (Bcc email) '', '') @
     header ''From'' (From email) @
     header ''Subject'' (Subject email) @
     header ''Date'' (now_RFC1123Z ev) @
     header ''Content-Type''
       (''multipart/alternative; boundary='' @ [DQ] @ ''=_'' @ fst (MessageID ev email) @ [DQ]) @
     header ''MIME-Version'' ''1.0''"

text \<open>
  A transport that records its calls: the world is the list of the calls made so far, and
  every call returns the given outcome.
\<close>

definition recording_transport ::
  "'err option \<Rightarrow> ('a, 'err, (string \<times> 'a \<times> string \<times> string list \<times> string) list) SendMail" where
  "recording_transport outcome addr a from' to' msg calls =
     (outcome, calls @ [(addr, a, from', to', msg)])"

subsection \<open>Sample inputs\<close>

text \<open>
  An environment for the examples: a fixed digest in place of the SHA-1 of the dump, a
  date, and an address as the printed form of the encoder.
\<close>

definition sample_env :: env where
  "sample_env =
     \<lparr>sha1 = (\<lambda>_. 0x2fd4e1c67a2d28fced849ee1bb76e7391b93eb12),
      now_RFC1123Z = ''Mon, 02 Jan 2006 15:04:05 -0700'',
      fmt_encoder = (\<lambda>_. ''0xc000010250'')\<rparr>"

text \<open>
  Modelled from the spec: the quoted-printable encoder of the package
  \<^verbatim>\<open>github.com/stephens2424/quotedPrintable\<close>, which is not part of this source, on
  ASCII text within the wrap width: such text passes unchanged except that \<open>=\<close> is
  escaped as \<open>=3D\<close>; the label is \<open>quoted-printable\<close>. The decoder undoes the escape.
\<close>

definition plain_quotedPrintable :: TransferEncoder where
  "plain_quotedPrintable =
     \<lparr>Encode = (\<lambda>src. concat (map (\<lambda>c. if c = CHR ''='' then ''=3D'' else [c]) src)),
      TransferEncodingType = ''quoted-printable''\<rparr>"

fun plain_decode :: "string \<Rightarrow> string" where
  "plain_decode [] = []"
| "plain_decode (c # cs) =
     (if c = CHR ''='' \<and> take 2 cs = ''3D'' then CHR ''='' # plain_decode (drop 2 cs)
      else c # plain_decode cs)"

text \<open>An encoder whose \<^verbatim>\<open>TransferEncodingType\<close> returns the empty string.\<close>

definition unlabelled_encoder :: TransferEncoder where
  "unlabelled_encoder = \<lparr>Encode = (\<lambda>src. src), TransferEncodingType = []\<rparr>"

text \<open>
  The message of the specification's example, built with the package's operations: a
  new message with the given encoder, one recipient, the sender and the subject assigned,
  one plain-text body.
\<close>

definition example_email :: "TransferEncoder \<Rightarrow> Email" where
  "example_email enc =
     AddTextBody ''Hello''
       ((AddRecipient ''a@x.com'' (NewEmailWithEncoder enc))
          \<lparr>From := ''b@x.com'', Subject := ''Hi''\<rparr>)"

section \<open>Auxiliary facts\<close>

subsection \<open>Splitting and joining\<close>

lemma Split_not_Nil [simp]: "Split s sep \<noteq> []"
  by (induction s) (auto split: list.splits)

lemma Join_Cons: "ls \<noteq> [] \<Longrightarrow> Join (l # ls) sep = l @ sep @ Join ls sep"
  by (cases ls) auto

lemma Join_Split: "Join (Split s sep) [sep] = s"
proof (induction s)
  case Nil
  then show ?case by simp
next
  case (Cons c cs)
  show ?case
  proof (cases "c = sep")
    case True
    then show ?thesis using Cons by (simp add: Join_Cons)
  next
    case False
    obtain w ws where sp: "Split cs sep = w # ws" by (cases "Split cs sep") auto
    with Cons have "Join (w # ws) [sep] = cs" by simp
    moreover have "Join ((c # w) # ws) [sep] = c # Join (w # ws) [sep]"
      by (cases ws) auto
    ultimately show ?thesis using False sp by simp
  qed
qed

lemma Split_no_sep: "sep \<notin> set s \<Longrightarrow> Split s sep = [s]"
  by (induction s) auto

lemma Split_append_sep: "sep \<notin> set a \<Longrightarrow> Split (a @ sep # b) sep = a # Split b sep"
  by (induction a) auto

subsection \<open>The folding loop and its lines\<close>

lemma foldLines_not_Nil [simp]: "foldLines m ws line \<noteq> []"
  by (induction ws arbitrary: line) auto

text \<open>The loop keeps \<open>lineLength\<close> equal to the length of \<open>lineBuffer\<close>, and what it
  leaves in the two buffers is the lines joined by the continuation marker.\<close>

lemma foldLoop_lines:
  "foldLoop m ws (fb, lb, n) = (fb', lb', n') \<Longrightarrow> n = int (length lb) \<Longrightarrow>
   fb' @ lb' = fb @ Join (foldLines m ws lb) (CRLF @ '' '')"
proof (induction ws arbitrary: fb lb n)
  case Nil
  then show ?case by simp
next
  case (Cons w ws)
  show ?case
  proof (cases "int (length w) + int (length lb) + 1 \<le> m")
    case True
    with Cons.prems
    have "foldLoop m ws (fb, lb @ w @ '' '', n + (int (length w) + 1)) = (fb', lb', n')"
      by (simp add: Let_def)
    from Cons.IH [OF this] Cons.prems(2) True show ?thesis by simp
  next
    case False
    with Cons.prems
    have "foldLoop m ws (fb @ lb @ CRLF @ '' '', w @ '' '', int (length w) + 1) = (fb', lb', n')"
      by (simp add: Let_def)
    from Cons.IH [OF this] Cons.prems(2) False show ?thesis
      by (simp add: Join_Cons)
  qed
qed

lemma foldString_lines:
  "foldString m p s = Join (foldLines m (Split s SP) p) (CRLF @ '' '') @ CRLF"
proof -
  obtain fb lb n where r: "foldLoop m (Split s SP) ([], p, int (length p)) = (fb, lb, n)"
    by (cases "foldLoop m (Split s SP) ([], p, int (length p))") auto
  from foldLoop_lines [OF r refl]
  have "fb @ lb = Join (foldLines m (Split s SP) p) (CRLF @ '' '')"
    by simp
  with r show ?thesis by (simp add: foldString_def)
qed

lemma foldString_not_Nil [simp]: "foldString m p s \<noteq> []"
  by (simp add: foldString_lines)

lemma foldLines_ok:
  "line_ok m p W line \<Longrightarrow> set ws \<subseteq> W \<Longrightarrow> \<forall>l\<in>set (foldLines m ws line). line_ok m p W l"
proof (induction ws arbitrary: line)
  case Nil
  then show ?case by simp
next
  case (Cons w ws)
  show ?case
  proof (cases "int (length w) + int (length line) + 1 \<le> m")
    case True
    then have "line_ok m p W (line @ w @ '' '')" by (simp add: line_ok_def)
    from Cons.IH [OF this] Cons.prems True show ?thesis by simp
  next
    case False
    have "line_ok m p W (w @ '' '')"
      using Cons.prems(2) by (auto simp: line_ok_def)
    from Cons.IH [OF this] Cons.prems False show ?thesis by simp
  qed
qed

lemma foldLines_prefix: "prefix line (Join (foldLines m ws line) sep)"
proof (induction ws arbitrary: line)
  case Nil
  then show ?case by simp
next
  case (Cons w ws)
  show ?case
  proof (cases "int (length w) + int (length line) + 1 \<le> m")
    case True
    from Cons [of "line @ w @ '' ''"] True show ?thesis
      by (auto simp: prefix_def)
  next
    case False
    then show ?thesis by (simp add: Join_Cons)
  qed
qed

lemma foldString_prefix: "prefix p (foldString m p s)"
  using foldLines_prefix [of p m "Split s SP" "CRLF @ '' ''"]
  by (auto simp: foldString_lines prefix_def)

subsection \<open>Removing the continuation markers\<close>

lemma remove_markers_append:
  "CR \<notin> set a \<Longrightarrow> remove_markers (a @ b) = a @ remove_markers b"
  by (induction a) auto

lemma Split_set: "w \<in> set (Split s sep) \<Longrightarrow> set w \<subseteq> set s"
proof (induction s arbitrary: w)
  case Nil
  then show ?case by simp
next
  case (Cons c cs)
  show ?case
  proof (cases "c = sep")
    case True
    with Cons show ?thesis by auto
  next
    case False
    obtain x xs where sp: "Split cs sep = x # xs" by (cases "Split cs sep") auto
    with Cons.prems False have "w = c # x \<or> w \<in> set xs" by simp
    then show ?thesis
    proof
      assume "w = c # x"
      moreover have "set x \<subseteq> set cs" using Cons.IH [of x] sp by simp
      ultimately show ?thesis by auto
    next
      assume "w \<in> set xs"
      then have "set w \<subseteq> set cs" using Cons.IH [of w] sp by simp
      then show ?thesis by auto
    qed
  qed
qed

lemma concat_words: "ws \<noteq> [] \<Longrightarrow> concat (map (\<lambda>w. w @ sep) ws) = Join ws sep @ sep"
  by (induction ws sep rule: Join.induct) auto

text \<open>
  With no carriage return in the starting line and the words, the markers are the only
  occurrences of CRLF and a space in the joined lines, and removing them leaves the
  starting line and every word with its space.
\<close>

lemma foldLines_remove_markers:
  "CR \<notin> set line \<Longrightarrow> \<forall>w\<in>set ws. CR \<notin> set w \<Longrightarrow>
   remove_markers (Join (foldLines m ws line) (CRLF @ '' '') @ rest) =
     line @ concat (map (\<lambda>w. w @ '' '') ws) @ remove_markers rest"
proof (induction ws arbitrary: line)
  case Nil
  then show ?case by (simp add: remove_markers_append)
next
  case (Cons w ws)
  have w: "CR \<notin> set w" and ws: "\<forall>w\<in>set ws. CR \<notin> set w"
    using Cons.prems(2) by auto
  show ?case
  proof (cases "int (length w) + int (length line) + 1 \<le> m")
    case True
    have "CR \<notin> set (line @ w @ '' '')" using Cons.prems(1) w by simp
    from Cons.IH [OF this ws] True show ?thesis by simp
  next
    case False
    have "CR \<notin> set (w @ '' '')" using w by simp
    from Cons.IH [OF this ws] False Cons.prems(1) show ?thesis
      by (simp add: Join_Cons remove_markers_append)
  qed
qed

lemma foldString_remove_markers:
  assumes "CR \<notin> set p" "CR \<notin> set v"
  shows "remove_markers (foldString m p v) = p @ v @ '' '' @ CRLF"
proof -
  have "\<forall>w\<in>set (Split v SP). CR \<notin> set w"
    using Split_set [of _ v SP] assms(2) by auto
  from foldLines_remove_markers [OF assms(1) this, of m CRLF]
  have "remove_markers (foldString m p v) =
      p @ concat (map (\<lambda>w. w @ '' '') (Split v SP)) @ CRLF"
    by (simp add: foldString_lines)
  also have "concat (map (\<lambda>w. w @ '' '') (Split v SP)) = Join (Split v SP) '' '' @ '' ''"
    by (rule concat_words) simp
  also have "Join (Split v SP) '' '' = v" by (rule Join_Split)
  finally show ?thesis by simp
qed

subsection \<open>What the formatter appends\<close>

lemma addHeader_buffer [simp]: "buffer (addHeader f v e) = buffer e @ header f v"
  by (simp add: addHeader_def header_def)

lemma addHeader_boundary [simp]: "boundary (addHeader f v e) = boundary e"
  by (simp add: addHeader_def)

lemma addHeader_encoder [simp]: "encoder (addHeader f v e) = encoder e"
  by (simp add: addHeader_def)

lemma addBody_boundary [simp]: "boundary (addBody b fe) = boundary fe"
  by (simp add: addBody_def Let_def)

lemma addBody_encoder [simp]: "encoder (addBody b fe) = encoder fe"
  by (simp add: addBody_def Let_def)

lemma addBody_buffer:
  "buffer (addBody b fe) =
     buffer fe @ boundary fe @ CRLF @
     header ''Content-Type'' (mimeType b) @
     header ''Content-Transfer-Encoding'' (TransferEncodingType (encoder fe)) @
     CRLF @ Encode (encoder fe) (bodyText b) @ CRLF"
  by (simp add: addBody_def Let_def)

lemma foldl_addBody_buffer:
  "boundary fe = CRLF @ ''--'' @ bd \<Longrightarrow>
   buffer (foldl (\<lambda>fEmail body. addBody body fEmail) fe bs) =
     buffer fe @ concat (map (part bd (encoder fe)) bs)"
proof (induction bs arbitrary: fe)
  case Nil
  then show ?case by simp
next
  case (Cons b bs)
  have "boundary (addBody b fe) = CRLF @ ''--'' @ bd" using Cons.prems by simp
  from Cons.IH [OF this] Cons.prems show ?case
    by (simp add: addBody_buffer part_def)
qed

lemma foldl_addBody_boundary [simp]:
  "boundary (foldl (\<lambda>fEmail body. addBody body fEmail) fe bs) = boundary fe"
  by (induction bs arbitrary: fe) simp_all

text \<open>Bodies added one after the other are listed in the order they were added.\<close>

lemma AddBody_foldl:
  "emailBodies (foldl (\<lambda>e (m, t). AddBody m t e) email bs) =
     emailBodies email @ map (\<lambda>(m, t). \<lparr>mimeType = m, bodyText = t\<rparr>) bs"
  by (induction bs arbitrary: email) (auto simp: AddBody_def)

lemma header_empty_iff: "header field val = [] \<longleftrightarrow> val = []"
  by (simp add: header_def)

lemma Format_run_buffer:
  "buffer (fst (Format_run ev email)) =
     top_headers ev email @
     concat (map (part (''=_'' @ fst (MessageID ev email)) (Email.encoder email))
                 (emailBodies email))"
  by (simp add: Format_run_def MessageID_def Let_def foldl_addBody_buffer top_headers_def)

lemma Format_run_boundary:
  "boundary (fst (Format_run ev email)) = CRLF @ ''--'' @ ''=_'' @ fst (MessageID ev email)"
  by (simp add: Format_run_def MessageID_def Let_def)

lemma Format_run_email: "snd (Format_run ev email) = email"
  by (simp add: Format_run_def MessageID_def Let_def)

lemma Format_output:
  "fst (Format ev email) =
     top_headers ev email @
     concat (map (part (''=_'' @ fst (MessageID ev email)) (Email.encoder email))
                 (emailBodies email))"
  by (simp add: Format_def case_prod_beta Format_run_buffer)

lemma Format_email: "snd (Format ev email) = email"
  by (simp add: Format_def case_prod_beta Format_run_email)

subsection \<open>The identifier\<close>

lemma Sprintf_x_length: "length (Sprintf_x bs) = 2 * length bs"
  by (induction bs) (simp_all add: Sprintf_x_def hexbyte_def)

lemma hexdigit_in: "hexdigit n \<in> set ''0123456789abcdef''"
proof -
  have "n mod 16 < length ''0123456789abcdef''" by simp
  then show ?thesis unfolding hexdigit_def by (rule nth_mem)
qed

lemma Sprintf_x_hex: "set (Sprintf_x bs) \<subseteq> set ''0123456789abcdef''"
  using hexdigit_in by (auto simp: Sprintf_x_def hexbyte_def)

lemma MessageID_length: "length (fst (MessageID ev e)) = 40"
  by (simp add: MessageID_def Sprintf_x_length digest_bytes_def)

lemma MessageID_hex: "set (fst (MessageID ev e)) \<subseteq> set ''0123456789abcdef''"
  unfolding MessageID_def Let_def fst_conv by (rule Sprintf_x_hex)

lemma MessageID_no_space: "SP \<notin> set (fst (MessageID ev e))"
  using MessageID_hex [of ev e] by auto

text \<open>
  The identifier determines the digest: the twenty bytes determine the 160 bits, and
  the hexadecimal digits determine the bytes.
\<close>

lemma digest_bytes_nth:
  "i < 20 \<Longrightarrow> digest_bytes d ! i = ucast (drop_bit (8 * (19 - i)) d)"
  by (simp add: digest_bytes_def)

lemma digest_bytes_inj: "digest_bytes d = digest_bytes d' \<Longrightarrow> d = d'"
proof (rule bit_word_eqI)
  fix n
  assume eq: "digest_bytes d = digest_bytes d'" and n: "n < LENGTH(160)"
  define i where "i = 19 - n div 8"
  have i: "i < 20" by (simp add: i_def)
  have pos: "8 * (19 - i) + n mod 8 = n" using n by (simp add: i_def)
  from eq have "digest_bytes d ! i = digest_bytes d' ! i" by simp
  then have "(ucast (drop_bit (8 * (19 - i)) d) :: 8 word) =
      ucast (drop_bit (8 * (19 - i)) d')"
    using i by (simp add: digest_bytes_nth)
  then have "bit (ucast (drop_bit (8 * (19 - i)) d) :: 8 word) (n mod 8) =
             bit (ucast (drop_bit (8 * (19 - i)) d') :: 8 word) (n mod 8)"
    by simp
  then have "bit d (8 * (19 - i) + n mod 8) = bit d' (8 * (19 - i) + n mod 8)"
    by (simp add: bit_ucast_iff bit_drop_bit_eq)
  then show "bit d n = bit d' n" by (simp only: pos)
qed

lemma hexdigit_inj: "a < 16 \<Longrightarrow> b < 16 \<Longrightarrow> hexdigit a = hexdigit b \<Longrightarrow> a = b"
proof -
  assume a: "a < 16" and b: "b < 16" and eq: "hexdigit a = hexdigit b"
  have d: "distinct ''0123456789abcdef''" by simp
  have "''0123456789abcdef'' ! a = ''0123456789abcdef'' ! b"
    using eq a b by (simp add: hexdigit_def)
  with d a b show ?thesis by (simp add: nth_eq_iff_index_eq)
qed

lemma hexbyte_inj: "hexbyte a = hexbyte b \<Longrightarrow> a = b"
proof -
  assume eq: "hexbyte a = hexbyte b"
  have la: "unat a < 256" and lb: "unat b < 256"
    using unsigned_less [of a, where ?'a = nat] unsigned_less [of b, where ?'a = nat]
    by simp_all
  from eq have h: "hexdigit (unat a div 16) = hexdigit (unat b div 16)"
    and l: "hexdigit (unat a mod 16) = hexdigit (unat b mod 16)"
    by (simp_all add: hexbyte_def)
  have "unat a div 16 = unat b div 16"
    using la lb by (intro hexdigit_inj [OF _ _ h]) simp_all
  moreover have "unat a mod 16 = unat b mod 16"
    by (intro hexdigit_inj [OF _ _ l]) simp_all
  ultimately have "unat a = unat b" by (metis div_mult_mod_eq)
  then show ?thesis by (rule unsigned_word_eqI)
qed

lemma Sprintf_x_inj: "Sprintf_x bs = Sprintf_x bs' \<Longrightarrow> bs = bs'"
proof (induction bs arbitrary: bs')
  case Nil
  then show ?case by (cases bs') (simp_all add: Sprintf_x_def hexbyte_def)
next
  case (Cons b bs)
  then obtain c cs where bs': "bs' = c # cs"
    by (cases bs') (simp_all add: Sprintf_x_def hexbyte_def)
  from Cons.prems bs' have "hexbyte b @ Sprintf_x bs = hexbyte c @ Sprintf_x cs"
    by (simp add: Sprintf_x_def)
  moreover have "length (hexbyte b) = length (hexbyte c)" by (simp add: hexbyte_def)
  ultimately have "hexbyte b = hexbyte c" "Sprintf_x bs = Sprintf_x cs" by simp_all
  with Cons.IH [of cs] hexbyte_inj bs' show ?case by simp
qed

lemma MessageID_eq_iff:
  "fst (MessageID ev e) = fst (MessageID ev' e') \<longleftrightarrow>
   sha1 ev (Sprintf_v ev e) = sha1 ev' (Sprintf_v ev' e')"
  by (auto simp: MessageID_def dest: Sprintf_x_inj digest_bytes_inj)

text \<open>The formatter reads its environment for the clock and the identifier only.\<close>

lemma Format_depends:
  "now_RFC1123Z ev' = now_RFC1123Z ev \<Longrightarrow>
   fst (MessageID ev' email) = fst (MessageID ev email) \<Longrightarrow>
   fst (Format ev' email) = fst (Format ev email)"
  by (simp add: Format_output top_headers_def)

subsection \<open>The example message\<close>

lemma sublist_concat: "xs \<in> set xss \<Longrightarrow> sublist xs (concat xss)"
proof -
  assume "xs \<in> set xss"
  then obtain ys zs where "xss = ys @ xs # zs" by (auto simp: in_set_conv_decomp)
  then show ?thesis by simp
qed

lemma example_email_fields:
  "To (example_email enc) = [''a@x.com'']"
  "Cc (example_email enc) = []"
  "Bcc (example_email enc) = []"
  "From (example_email enc) = ''b@x.com''"
  "Subject (example_email enc) = ''Hi''"
  "emailBodies (example_email enc) =
     [\<lparr>mimeType = ''text/plain; charset=utf-8'', bodyText = ''Hello''\<rparr>]"
  "Email.encoder (example_email enc) = enc"
  by (simp_all add: example_email_def AddTextBody_def AddBody_def AddRecipient_def
      NewEmailWithEncoder_def)

text \<open>The top-level \<open>Content-Type\<close> header is folded before the boundary parameter,
  whatever the identifier is: with its 40 digits the parameter does not fit on the first
  line.\<close>

lemma header_multipart:
  assumes "length i = 40" "SP \<notin> set i"
  shows "header ''Content-Type''
           (''multipart/alternative; boundary='' @ [DQ] @ ''=_'' @ i @ [DQ]) =
         ''Content-Type: multipart/alternative; '' @ CRLF @
         '' boundary='' @ [DQ] @ ''=_'' @ i @ [DQ] @ '' '' @ CRLF"
proof -
  have s: "Split (''multipart/alternative; boundary='' @ [DQ] @ ''=_'' @ i @ [DQ]) SP
      = [''multipart/alternative;'', ''boundary='' @ [DQ] @ ''=_'' @ i @ [DQ]]"
    using Split_append_sep [of SP "''multipart/alternative;''"
        "''boundary='' @ [DQ] @ ''=_'' @ i @ [DQ]"]
      Split_no_sep [of SP "''boundary='' @ [DQ] @ ''=_'' @ i @ [DQ]"] assms(2)
    by simp
  show ?thesis
    unfolding header_def foldString_def using assms(1)
    by (simp only: s) simp
qed

lemma example_output:
  assumes "TransferEncodingType enc = ''quoted-printable''"
  shows "fst (Format ev (example_email enc)) =
     ''To: a@x.com '' @ CRLF @
     ''From: b@x.com '' @ CRLF @
     ''Subject: Hi '' @ CRLF @
     header ''Date'' (now_RFC1123Z ev) @
     ''Content-Type: multipart/alternative; '' @ CRLF @
     '' boundary='' @ [DQ] @ ''=_'' @ fst (MessageID ev (example_email enc)) @ [DQ] @
     '' '' @ CRLF @
     ''MIME-Version: 1.0 '' @ CRLF @
     CRLF @ ''--=_'' @ fst (MessageID ev (example_email enc)) @ CRLF @
     ''Content-Type: text/plain; charset=utf-8 '' @ CRLF @
     ''Content-Transfer-Encoding: quoted-printable '' @ CRLF @
     CRLF @ Encode enc ''Hello'' @ CRLF"
proof -
  have h: "header ''To'' ''a@x.com'' = ''To: a@x.com '' @ CRLF"
    "header ''From'' ''b@x.com'' = ''From: b@x.com '' @ CRLF"
    "header ''Subject'' ''Hi'' = ''Subject: Hi '' @ CRLF"
    "header ''MIME-Version'' ''1.0'' =  ''MIME-Version: 1.0 '' @ CRLF"
    "header ''Content-Type'' ''text/plain; charset=utf-8'' =
       ''Content-Type: text/plain; charset=utf-8 '' @ CRLF"
    "header ''Content-Transfer-Encoding'' ''quoted-printable'' =
       ''Content-Transfer-Encoding: quoted-printable '' @ CRLF"
    "header ''Cc'' [] = []"
    by (simp_all add: header_def foldString_def)
  show ?thesis
    unfolding Format_output top_headers_def part_def example_email_fields
    using h assms
      header_multipart [OF MessageID_length MessageID_no_space, of ev "example_email enc"]
    by (simp add: header_def)
qed

section \<open>The properties\<close>

subsection \<open>Top-level headers\<close>

text \<open>
  C1. For every message, \<^verbatim>\<open>Format\<close> emits the top-level headers in the fixed order To,
  Cc, Bcc, From, Subject, Date, Content-Type, MIME-Version, ahead of the body parts; what
  \<^verbatim>\<open>addHeader\<close> appends for a field is empty if and only if the value is empty, and
  for a non-empty value it is the folded line that starts with the field name and a
  colon. In particular an unset Cc or Bcc gives no header line.
\<close>

theorem Format_top_headers:
  "fst (Format ev email) =
     header ''To'' (Join (To email) '', '') @
     header ''Cc'' (Join (Cc email) '', '') @
     header ''Bcc'' (Join (Bcc email) '', '') @
     header ''From'' (From email) @
     header ''Subject'' (Subject email) @
     header ''Date'' (now_RFC1123Z ev) @
     header ''Content-Type''
       (''multipart/alternative; boundary='' @ [DQ] @ ''=_'' @ fst (MessageID ev email) @ [DQ]) @
     header ''MIME-Version'' ''1.0'' @
     concat (map (part (''=_'' @ fst (MessageID ev email)) (Email.encoder email))
                 (emailBodies email)) \<and>
   (\<forall>field val fEmail. buffer (addHeader field val fEmail) = buffer fEmail @ header field val) \<and>
   (\<forall>field val. (header field val = []) = (val = [])) \<and>
   (\<forall>field val. val \<noteq> [] \<longrightarrow>
      header field val = foldString 78 (field @ '': '') val \<and>
      prefix (field @ '': '') (header field val)) \<and>
   (Cc email = [] \<longrightarrow> header ''Cc'' (Join (Cc email) '', '') = []) \<and>
   (Bcc email = [] \<longrightarrow> header ''Bcc'' (Join (Bcc email) '', '') = [])"
proof -
  have "fst (Format ev email) =
     header ''To'' (Join (To email) '', '') @
     header ''Cc'' (Join (Cc email) '', '') @
     header ''Bcc'' (Join (Bcc email) '', '') @
     header ''From'' (From email) @
     header ''Subject'' (Subject email) @
     header ''Date'' (now_RFC1123Z ev) @
     header ''Content-Type''
       (''multipart/alternative; boundary='' @ [DQ] @ ''=_'' @ fst (MessageID ev email) @ [DQ]) @
     header ''MIME-Version'' ''1.0'' @
     concat (map (part (''=_'' @ fst (MessageID ev email)) (Email.encoder email))
                 (emailBodies email))"
    by (simp add: Format_output top_headers_def)
  moreover have "\<forall>field val fEmail.
      buffer (addHeader field val fEmail) = buffer fEmail @ header field val"
    by simp
  moreover have "\<forall>field val. (header field val = []) = (val = [])"
    by (simp add: header_empty_iff)
  moreover have "\<forall>field val. val \<noteq> [] \<longrightarrow>
      header field val = foldString 78 (field @ '': '') val \<and>
      prefix (field @ '': '') (header field val)"
    by (simp add: header_def foldString_prefix)
  moreover have "Cc email = [] \<longrightarrow> header ''Cc'' (Join (Cc email) '', '') = []"
    by (simp add: header_def)
  moreover have "Bcc email = [] \<longrightarrow> header ''Bcc'' (Join (Bcc email) '', '') = []"
    by (simp add: header_def)
  ultimately show ?thesis
    by (intro conjI)
qed

theorem Format_top_headers_witness:
  "Cc (example_email plain_quotedPrintable) = [] \<and>
   header ''Cc'' (Join (Cc (example_email plain_quotedPrintable)) '', '') = [] \<and>
   ''Hi'' \<noteq> [] \<and>
   header ''Subject'' ''Hi'' = foldString 78 (''Subject'' @ '': '') ''Hi'' \<and>
   foldString 78 (''Subject'' @ '': '') ''Hi'' = ''Subject: Hi '' @ CRLF"
proof -
  have c: "Cc (example_email plain_quotedPrintable) = []"
    by (simp add: example_email_fields)
  have n: "''Hi'' \<noteq> []" by simp
  have f: "foldString 78 (''Subject'' @ '': '') ''Hi'' = ''Subject: Hi '' @ CRLF"
    by (simp add: foldString_def)
  from Format_top_headers [of sample_env "example_email plain_quotedPrintable"] c n f
  show ?thesis by blast
qed

subsection \<open>Body parts\<close>

text \<open>
  C2, amended. For every message, \<^verbatim>\<open>Format\<close> emits the body parts after the top-level
  headers in the order of the list, to which \<^verbatim>\<open>AddBody\<close> appends at the end, so that
  bodies added one after the other come out in the order they were added. Each
  part is exactly: the boundary marker line (CRLF, two dashes, the boundary, CRLF), a
  Content-Type header carrying the part's mimeType (omitted if the mimeType is empty), a
  Content-Transfer-Encoding header carrying the encoder's label (omitted if the label is
  empty), a blank line, the encoder's output on the body text, and a CRLF.
\<close>

theorem Format_parts:
  "fst (Format ev email) =
     top_headers ev email @
     concat (map (\<lambda>b. CRLF @ ''--'' @ ''=_'' @ fst (MessageID ev email) @ CRLF @
                      header ''Content-Type'' (mimeType b) @
                      header ''Content-Transfer-Encoding''
                        (TransferEncodingType (Email.encoder email)) @
                      CRLF @ Encode (Email.encoder email) (bodyText b) @ CRLF)
                 (emailBodies email)) \<and>
   emailBodies (AddBody m t email) = emailBodies email @ [\<lparr>mimeType = m, bodyText = t\<rparr>] \<and>
   emailBodies (foldl (\<lambda>e (m, t). AddBody m t e) email bs) =
     emailBodies email @ map (\<lambda>(m, t). \<lparr>mimeType = m, bodyText = t\<rparr>) bs \<and>
   (\<forall>field val. header field val =
      (if val = [] then [] else foldString 78 (field @ '': '') val))"
proof -
  have "part (''=_'' @ fst (MessageID ev email)) (Email.encoder email) =
      (\<lambda>b. CRLF @ ''--'' @ ''=_'' @ fst (MessageID ev email) @ CRLF @
                      header ''Content-Type'' (mimeType b) @
                      header ''Content-Transfer-Encoding''
                        (TransferEncodingType (Email.encoder email)) @
                      CRLF @ Encode (Email.encoder email) (bodyText b) @ CRLF)"
    by (rule ext) (simp add: part_def)
  then have "fst (Format ev email) =
     top_headers ev email @
     concat (map (\<lambda>b. CRLF @ ''--'' @ ''=_'' @ fst (MessageID ev email) @ CRLF @
                      header ''Content-Type'' (mimeType b) @
                      header ''Content-Transfer-Encoding''
                        (TransferEncodingType (Email.encoder email)) @
                      CRLF @ Encode (Email.encoder email) (bodyText b) @ CRLF)
                 (emailBodies email))"
    by (simp add: Format_output)
  moreover have "emailBodies (AddBody m t email) =
      emailBodies email @ [\<lparr>mimeType = m, bodyText = t\<rparr>]"
    by (simp add: AddBody_def)
  moreover note AddBody_foldl [of email bs]
  moreover have "\<forall>field val. header field val =
      (if val = [] then [] else foldString 78 (field @ '': '') val)"
    by (simp add: header_def)
  ultimately show ?thesis
    by (intro conjI)
qed

theorem Format_parts_witness:
  "fst (Format sample_env (example_email unlabelled_encoder)) =
     top_headers sample_env (example_email unlabelled_encoder) @
     CRLF @ ''--=_2fd4e1c67a2d28fced849ee1bb76e7391b93eb12'' @ CRLF @
     ''Content-Type: text/plain; charset=utf-8 '' @ CRLF @
     CRLF @ ''Hello'' @ CRLF"
proof -
  have i: "fst (MessageID sample_env (example_email unlabelled_encoder)) =
      ''2fd4e1c67a2d28fced849ee1bb76e7391b93eb12''"
    by code_simp
  have h: "header ''Content-Type'' ''text/plain; charset=utf-8'' =
      ''Content-Type: text/plain; charset=utf-8 '' @ CRLF"
    "header ''Content-Transfer-Encoding'' [] = []"
    by (simp_all add: header_def foldString_def)
  from Format_parts [of sample_env "example_email unlabelled_encoder"]
  have "fst (Format sample_env (example_email unlabelled_encoder)) =
     top_headers sample_env (example_email unlabelled_encoder) @
     concat (map (\<lambda>b. CRLF @ ''--'' @ ''=_'' @
                        fst (MessageID sample_env (example_email unlabelled_encoder)) @ CRLF @
                      header ''Content-Type'' (mimeType b) @
                      header ''Content-Transfer-Encoding''
                        (TransferEncodingType (Email.encoder (example_email unlabelled_encoder))) @
                      CRLF @
                      Encode (Email.encoder (example_email unlabelled_encoder)) (bodyText b) @
                      CRLF)
                 (emailBodies (example_email unlabelled_encoder)))"
    by (rule conjunct1)
  then show ?thesis
    unfolding i example_email_fields by (simp add: h unlabelled_encoder_def)
qed

theorem Format_parts_counterexample:
  "\<not> sublist ''Content-Transfer-Encoding''
       (fst (Format sample_env (example_email unlabelled_encoder)))"
  by code_simp

subsection \<open>Header folding\<close>

text \<open>
  C3, amended. For every prefix and value string, the output of the header folder is its
  lines joined by the continuation marker (CRLF and a space) and closed by CRLF, and no
  line, taken without the leading continuation space and with the space the folder writes
  after each word, is longer than 78 bytes, except the first line when it is the prefix
  alone (a prefix is never folded), and except a line that holds a single word of 78
  bytes or more, unsplit, and the space after it.
\<close>

theorem foldString_line_width:
  "foldString 78 p v = Join (foldLines 78 (Split v SP) p) (CRLF @ '' '') @ CRLF \<and>
   (\<forall>l\<in>set (foldLines 78 (Split v SP) p).
      length l \<le> 78 \<or> l = p \<or>
      (\<exists>w\<in>set (Split v SP). 78 \<le> length w \<and> l = w @ '' ''))"
proof -
  have "line_ok 78 p (set (Split v SP)) p" by (simp add: line_ok_def)
  from foldLines_ok [OF this subset_refl] show ?thesis
    by (auto simp add: foldString_lines line_ok_def)
qed

theorem foldString_line_width_witness:
  "''thirteen fourteen fifteen '' \<in>
     set (foldLines 78
       (Split ''one  two three four five six seven eight nine ten eleven twelve thirteen fourteen fifteen'' SP)
       ''Subject: '') \<and>
   length ''thirteen fourteen fifteen '' \<le> 78 \<and>
   foldString 78 ''Subject: ''
     ''one  two three four five six seven eight nine ten eleven twelve thirteen fourteen fifteen'' =
     ''Subject: one  two three four five six seven eight nine ten eleven twelve '' @ CRLF @
     '' '' @ ''thirteen fourteen fifteen '' @ CRLF"
proof -
  have l: "foldLines 78
      (Split ''one  two three four five six seven eight nine ten eleven twelve thirteen fourteen fifteen'' SP)
      ''Subject: '' =
      [''Subject: one  two three four five six seven eight nine ten eleven twelve '',
       ''thirteen fourteen fifteen '']"
    by code_simp
  from foldString_line_width [of "''Subject: ''"
      "''one  two three four five six seven eight nine ten eleven twelve thirteen fourteen fifteen''"]
  show ?thesis by (simp add: l)
qed

theorem foldString_line_width_counterexample:
  "foldString 78 ''Subject: '' (replicate 78 (CHR ''a'')) =
     ''Subject: '' @ CRLF @ '' '' @ replicate 78 (CHR ''a'') @ '' '' @ CRLF \<and>
   foldLines 78 (Split (replicate 78 (CHR ''a'')) SP) ''Subject: '' =
     [''Subject: '', replicate 78 (CHR ''a'') @ '' ''] \<and>
   length (replicate 78 (CHR ''a'') @ '' '') = 79 \<and>
   \<not> lines_within 78 ''Subject: '' (replicate 78 (CHR ''a''))"
  by code_simp

text \<open>
  C5, amended. For every prefix and value string that contain no carriage return,
  removing the continuation markers (CRLF and a space) from the header folder's output
  yields the prefix, the original value byte for byte, one space, and the final CRLF;
  so re-joining the output (the markers removed, the prefix and the final CRLF dropped,
  runs of spaces restored to single spaces) yields the original value followed by one
  space, with its runs of spaces normalised to single spaces.
\<close>

theorem foldString_rejoin:
  assumes "CR \<notin> set p" and "CR \<notin> set v"
  shows "remove_markers (foldString 78 p v) = p @ v @ '' '' @ CRLF \<and>
         rejoin p (foldString 78 p v) = collapse_spaces (v @ '' '')"
  using foldString_remove_markers [OF assms, of 78] by (simp add: rejoin_def)

theorem foldString_rejoin_witness:
  "CR \<notin> set ''Subject: '' \<and>
   CR \<notin> set ''one  two three four five six seven eight nine ten eleven twelve thirteen fourteen fifteen'' \<and>
   remove_markers (foldString 78 ''Subject: ''
     ''one  two three four five six seven eight nine ten eleven twelve thirteen fourteen fifteen'') =
     ''Subject: '' @
     ''one  two three four five six seven eight nine ten eleven twelve thirteen fourteen fifteen'' @
     '' '' @ CRLF \<and>
   rejoin ''Subject: '' (foldString 78 ''Subject: ''
     ''one  two three four five six seven eight nine ten eleven twelve thirteen fourteen fifteen'') =
     ''one two three four five six seven eight nine ten eleven twelve thirteen fourteen fifteen ''"
proof -
  have p: "CR \<notin> set ''Subject: ''" by simp
  have v: "CR \<notin> set ''one  two three four five six seven eight nine ten eleven twelve thirteen fourteen fifteen''"
    by simp
  have c: "collapse_spaces
      (''one  two three four five six seven eight nine ten eleven twelve thirteen fourteen fifteen'' @ '' '') =
      ''one two three four five six seven eight nine ten eleven twelve thirteen fourteen fifteen ''"
    by code_simp
  from foldString_rejoin [OF p v] p v show ?thesis
    unfolding c by (intro conjI) (erule conjE, assumption)+
qed

theorem foldString_rejoin_counterexample:
  "foldString 78 ''Subject: '' ''Hi'' = ''Subject: Hi '' @ CRLF \<and>
   rejoin ''Subject: '' (foldString 78 ''Subject: '' ''Hi'') = ''Hi '' \<and>
   collapse_spaces ''Hi'' = ''Hi'' \<and>
   rejoin ''Subject: '' (foldString 78 ''Subject: '' ''Hi'') \<noteq> collapse_spaces ''Hi'' \<and>
   rejoin ''Subject: '' (foldString 78 ''Subject: '' (''a'' @ CRLF @ '' b'')) = ''ab ''"
  by code_simp

text \<open>
  C7, amended. For every prefix of at most 77 bytes, folding an empty value string
  produces a single folded line: the prefix, one space, and CRLF. For a longer prefix
  it produces the prefix, CRLF, and a continuation line of two spaces and CRLF.
\<close>

theorem foldString_empty_value:
  "foldString 78 p [] =
     (if length p \<le> 77 then p @ '' '' @ CRLF else p @ CRLF @ ''  '' @ CRLF)"
  by (simp add: foldString_def)

theorem foldString_empty_value_witness:
  "length ''Subject: '' \<le> 77 \<and> foldString 78 ''Subject: '' [] = ''Subject:  '' @ CRLF"
  using foldString_empty_value [of "''Subject: ''"] by simp

theorem foldString_empty_value_counterexample:
  "foldString 78 ''Subject: '' [] \<noteq> ''Subject: '' @ CRLF"
  by (simp add: foldString_def)

subsection \<open>The identifier and determinism\<close>

text \<open>
  C4. Calling \<^verbatim>\<open>Format\<close> twice on the same unmutated message, the second call on the
  message as the first one left it and with the same clock, digest function and encoder,
  yields the same bytes, the same identifier and the same boundary, which is the
  identifier after \<open>=_\<close>; more generally the bytes depend on the environment through
  the clock and the identifier alone. The identifier is a digest of the full message
  state in 40 hexadecimal digits: the digits determine the digest, so two identifiers
  are equal exactly when the digests of the two printed messages are; and the printed
  message holds every field, so that replacing one field leaves it unchanged only if the
  field prints as before (a string field: is the same string; a list: has the same
  elements joined by spaces; the encoder: prints the same).
\<close>

theorem Format_deterministic:
  "fst (Format ev (snd (Format ev email))) = fst (Format ev email) \<and>
   fst (MessageID ev (snd (Format ev email))) = fst (MessageID ev email) \<and>
   boundary (fst (Format_run ev (snd (Format ev email)))) =
     boundary (fst (Format_run ev email)) \<and>
   boundary (fst (Format_run ev email)) = CRLF @ ''--'' @ ''=_'' @ fst (MessageID ev email) \<and>
   (now_RFC1123Z ev' = now_RFC1123Z ev \<and>
    fst (MessageID ev' email) = fst (MessageID ev email) \<longrightarrow>
      fst (Format ev' email) = fst (Format ev email)) \<and>
   length (fst (MessageID ev email)) = 40 \<and>
   set (fst (MessageID ev email)) \<subseteq> set ''0123456789abcdef'' \<and>
   (fst (MessageID ev email) = fst (MessageID ev' email') \<longleftrightarrow>
      sha1 ev (Sprintf_v ev email) = sha1 ev' (Sprintf_v ev' email')) \<and>
   Sprintf_v ev email =
     ''&{To:['' @ Join (To email) '' '' @ ''] Cc:['' @ Join (Cc email) '' '' @
     ''] Bcc:['' @ Join (Bcc email) '' '' @ ''] From:'' @ From email @
     '' Subject:'' @ Subject email @ '' emailBodies:['' @
     Join (map (\<lambda>b. ''{mimeType:'' @ mimeType b @ '' bodyText:'' @ bodyText b @ ''}'')
            (emailBodies email)) '' '' @
     ''] encoder:'' @ fmt_encoder ev (Email.encoder email) @ ''}'' \<and>
   (Sprintf_v ev (email\<lparr>To := tos\<rparr>) = Sprintf_v ev email \<longleftrightarrow>
      Join tos '' '' = Join (To email) '' '') \<and>
   (Sprintf_v ev (email\<lparr>Cc := ccs\<rparr>) = Sprintf_v ev email \<longleftrightarrow>
      Join ccs '' '' = Join (Cc email) '' '') \<and>
   (Sprintf_v ev (email\<lparr>Bcc := bccs\<rparr>) = Sprintf_v ev email \<longleftrightarrow>
      Join bccs '' '' = Join (Bcc email) '' '') \<and>
   (Sprintf_v ev (email\<lparr>From := sender\<rparr>) = Sprintf_v ev email \<longleftrightarrow> sender = From email) \<and>
   (Sprintf_v ev (email\<lparr>Subject := subject\<rparr>) = Sprintf_v ev email \<longleftrightarrow>
      subject = Subject email) \<and>
   (Sprintf_v ev (email\<lparr>emailBodies := bodies\<rparr>) = Sprintf_v ev email \<longleftrightarrow>
      Join (map Sprintf_v_emailBody bodies) '' '' =
      Join (map Sprintf_v_emailBody (emailBodies email)) '' '') \<and>
   (Sprintf_v_emailBody \<lparr>mimeType = m, bodyText = t\<rparr> =
      Sprintf_v_emailBody \<lparr>mimeType = m, bodyText = t'\<rparr> \<longleftrightarrow> t = t') \<and>
   (Sprintf_v ev (email\<lparr>Email.encoder := enc\<rparr>) = Sprintf_v ev email \<longleftrightarrow>
      fmt_encoder ev enc = fmt_encoder ev (Email.encoder email))"
proof -
  have twice: "fst (Format ev (snd (Format ev email))) = fst (Format ev email)"
    "fst (MessageID ev (snd (Format ev email))) = fst (MessageID ev email)"
    "boundary (fst (Format_run ev (snd (Format ev email)))) =
       boundary (fst (Format_run ev email))"
    by (simp_all only: Format_email)
  have dep: "now_RFC1123Z ev' = now_RFC1123Z ev \<and>
      fst (MessageID ev' email) = fst (MessageID ev email) \<longrightarrow>
      fst (Format ev' email) = fst (Format ev email)"
    using Format_depends [of ev' ev email] by blast
  have body: "Sprintf_v_emailBody = (\<lambda>b. ''{mimeType:'' @ mimeType b @ '' bodyText:'' @ bodyText b @ ''}'')"
    by (rule ext) (simp add: Sprintf_v_emailBody_def)
  have dump: "Sprintf_v ev email =
     ''&{To:['' @ Join (To email) '' '' @ ''] Cc:['' @ Join (Cc email) '' '' @
     ''] Bcc:['' @ Join (Bcc email) '' '' @ ''] From:'' @ From email @
     '' Subject:'' @ Subject email @ '' emailBodies:['' @
     Join (map (\<lambda>b. ''{mimeType:'' @ mimeType b @ '' bodyText:'' @ bodyText b @ ''}'')
            (emailBodies email)) '' '' @
     ''] encoder:'' @ fmt_encoder ev (Email.encoder email) @ ''}''"
    by (simp add: Sprintf_v_def Sprintf_v_slice_def body)
  have fields:
    "Sprintf_v ev (email\<lparr>To := tos\<rparr>) = Sprintf_v ev email \<longleftrightarrow>
       Join tos '' '' = Join (To email) '' ''"
    "Sprintf_v ev (email\<lparr>Cc := ccs\<rparr>) = Sprintf_v ev email \<longleftrightarrow>
       Join ccs '' '' = Join (Cc email) '' ''"
    "Sprintf_v ev (email\<lparr>Bcc := bccs\<rparr>) = Sprintf_v ev email \<longleftrightarrow>
       Join bccs '' '' = Join (Bcc email) '' ''"
    "Sprintf_v ev (email\<lparr>From := sender\<rparr>) = Sprintf_v ev email \<longleftrightarrow> sender = From email"
    "Sprintf_v ev (email\<lparr>Subject := subject\<rparr>) = Sprintf_v ev email \<longleftrightarrow>
       subject = Subject email"
    "Sprintf_v ev (email\<lparr>emailBodies := bodies\<rparr>) = Sprintf_v ev email \<longleftrightarrow>
       Join (map Sprintf_v_emailBody bodies) '' '' =
       Join (map Sprintf_v_emailBody (emailBodies email)) '' ''"
    "Sprintf_v_emailBody \<lparr>mimeType = m, bodyText = t\<rparr> =
       Sprintf_v_emailBody \<lparr>mimeType = m, bodyText = t'\<rparr> \<longleftrightarrow> t = t'"
    "Sprintf_v ev (email\<lparr>Email.encoder := enc\<rparr>) = Sprintf_v ev email \<longleftrightarrow>
       fmt_encoder ev enc = fmt_encoder ev (Email.encoder email)"
    by (simp_all add: Sprintf_v_def Sprintf_v_slice_def Sprintf_v_emailBody_def)
  from twice dep Format_run_boundary [of ev email] MessageID_length [of ev email]
    MessageID_hex [of ev email] MessageID_eq_iff [of ev email ev' email'] dump fields
  show ?thesis by (intro conjI)
qed

theorem Format_deterministic_witness:
  "now_RFC1123Z (sample_env\<lparr>fmt_encoder := \<lambda>_. ''0xc000010260''\<rparr>) = now_RFC1123Z sample_env \<and>
   fst (MessageID (sample_env\<lparr>fmt_encoder := \<lambda>_. ''0xc000010260''\<rparr>)
          (example_email plain_quotedPrintable)) =
     fst (MessageID sample_env (example_email plain_quotedPrintable)) \<and>
   fst (Format (sample_env\<lparr>fmt_encoder := \<lambda>_. ''0xc000010260''\<rparr>)
          (example_email plain_quotedPrintable)) =
     fst (Format sample_env (example_email plain_quotedPrintable)) \<and>
   fst (MessageID sample_env (example_email plain_quotedPrintable)) =
     ''2fd4e1c67a2d28fced849ee1bb76e7391b93eb12'' \<and>
   Sprintf_v sample_env (example_email plain_quotedPrintable) =
     ''&{To:[a@x.com] Cc:[] Bcc:[] From:b@x.com Subject:Hi '' @
     ''emailBodies:[{mimeType:text/plain; charset=utf-8 bodyText:Hello}] '' @
     ''encoder:0xc000010250}'' \<and>
   Sprintf_v sample_env ((example_email plain_quotedPrintable)\<lparr>Subject := ''Ho''\<rparr>) \<noteq>
     Sprintf_v sample_env (example_email plain_quotedPrintable)"
proof -
  note t = Format_deterministic
    [where ev = sample_env and ev' = "sample_env\<lparr>fmt_encoder := \<lambda>_. ''0xc000010260''\<rparr>"
       and email = "example_email plain_quotedPrintable" and subject = "''Ho''"
       and email' = "example_email plain_quotedPrintable" and tos = "[]" and ccs = "[]"
       and bccs = "[]" and sender = "[]" and bodies = "[]" and m = "[]" and t = "[]"
       and t' = "[]" and enc = plain_quotedPrintable]
  have n: "now_RFC1123Z (sample_env\<lparr>fmt_encoder := \<lambda>_. ''0xc000010260''\<rparr>) =
      now_RFC1123Z sample_env"
    by simp
  have i: "fst (MessageID (sample_env\<lparr>fmt_encoder := \<lambda>_. ''0xc000010260''\<rparr>)
          (example_email plain_quotedPrintable)) =
     fst (MessageID sample_env (example_email plain_quotedPrintable))"
    by (simp add: MessageID_def sample_env_def)
  have f: "fst (Format (sample_env\<lparr>fmt_encoder := \<lambda>_. ''0xc000010260''\<rparr>)
          (example_email plain_quotedPrintable)) =
     fst (Format sample_env (example_email plain_quotedPrintable))"
    using t n i by blast
  have v: "fst (MessageID sample_env (example_email plain_quotedPrintable)) =
     ''2fd4e1c67a2d28fced849ee1bb76e7391b93eb12''"
    by code_simp
  have d: "Sprintf_v sample_env (example_email plain_quotedPrintable) =
     ''&{To:[a@x.com] Cc:[] Bcc:[] From:b@x.com Subject:Hi '' @
     ''emailBodies:[{mimeType:text/plain; charset=utf-8 bodyText:Hello}] '' @
     ''encoder:0xc000010250}''"
    by code_simp
  have s: "Sprintf_v sample_env ((example_email plain_quotedPrintable)\<lparr>Subject := ''Ho''\<rparr>) \<noteq>
     Sprintf_v sample_env (example_email plain_quotedPrintable)"
  proof -
    from t have "(Sprintf_v sample_env
          ((example_email plain_quotedPrintable)\<lparr>Subject := ''Ho''\<rparr>) =
        Sprintf_v sample_env (example_email plain_quotedPrintable)) =
        (''Ho'' = Subject (example_email plain_quotedPrintable))"
      by (elim conjE)
    then show ?thesis by (simp add: example_email_fields)
  qed
  from n i f v d s show ?thesis by (intro conjI)
qed

subsection \<open>The example of the specification\<close>

text \<open>
  C6, amended. For the message with To = [a@x.com], From = b@x.com, Subject = Hi and one
  text body Hello, with an encoder labelled quoted-printable, the output of \<^verbatim>\<open>Format\<close>
  contains the byte sequences \<open>To: a@x.com\<close>, \<open>From: b@x.com\<close> and \<open>Subject: Hi\<close>, each
  followed by one space and CRLF, and after the top-level headers exactly one
  boundary-delimited part, which holds \<open>Content-Transfer-Encoding: quoted-printable\<close>
  followed by one space and CRLF, and whose body is the encoder's output for Hello, so
  that it decodes to Hello under a decoder that inverts the encoder there.
\<close>

theorem example_message_output:
  assumes "TransferEncodingType enc = ''quoted-printable''"
    and "decode (Encode enc ''Hello'') = ''Hello''"
  shows "(\<exists>body.
     fst (Format ev (example_email enc)) =
       ''To: a@x.com '' @ CRLF @
       ''From: b@x.com '' @ CRLF @
       ''Subject: Hi '' @ CRLF @
       header ''Date'' (now_RFC1123Z ev) @
       ''Content-Type: multipart/alternative; '' @ CRLF @
       '' boundary='' @ [DQ] @ ''=_'' @ fst (MessageID ev (example_email enc)) @ [DQ] @
       '' '' @ CRLF @
       ''MIME-Version: 1.0 '' @ CRLF @
       CRLF @ ''--=_'' @ fst (MessageID ev (example_email enc)) @ CRLF @
       ''Content-Type: text/plain; charset=utf-8 '' @ CRLF @
       ''Content-Transfer-Encoding: quoted-printable '' @ CRLF @
       CRLF @ body @ CRLF \<and>
     decode body = ''Hello'') \<and>
   sublist (''To: a@x.com '' @ CRLF) (fst (Format ev (example_email enc))) \<and>
   sublist (''From: b@x.com '' @ CRLF) (fst (Format ev (example_email enc))) \<and>
   sublist (''Subject: Hi '' @ CRLF) (fst (Format ev (example_email enc))) \<and>
   sublist (''Content-Transfer-Encoding: quoted-printable '' @ CRLF)
     (fst (Format ev (example_email enc))) \<and>
   length (emailBodies (example_email enc)) = 1"
proof -
  note out = example_output [OF assms(1), of ev]
  have c: "fst (Format ev (example_email enc)) =
     concat [''To: a@x.com '' @ CRLF,
       ''From: b@x.com '' @ CRLF,
       ''Subject: Hi '' @ CRLF,
       header ''Date'' (now_RFC1123Z ev) @
       ''Content-Type: multipart/alternative; '' @ CRLF @
       '' boundary='' @ [DQ] @ ''=_'' @ fst (MessageID ev (example_email enc)) @ [DQ] @
       '' '' @ CRLF @
       ''MIME-Version: 1.0 '' @ CRLF @
       CRLF @ ''--=_'' @ fst (MessageID ev (example_email enc)) @ CRLF @
       ''Content-Type: text/plain; charset=utf-8 '' @ CRLF,
       ''Content-Transfer-Encoding: quoted-printable '' @ CRLF,
       CRLF @ Encode enc ''Hello'' @ CRLF]"
    by (simp add: out)
  have "sublist (''To: a@x.com '' @ CRLF) (fst (Format ev (example_email enc)))"
    unfolding c by (rule sublist_concat) simp
  moreover have "sublist (''From: b@x.com '' @ CRLF) (fst (Format ev (example_email enc)))"
    unfolding c by (rule sublist_concat) simp
  moreover have "sublist (''Subject: Hi '' @ CRLF) (fst (Format ev (example_email enc)))"
    unfolding c by (rule sublist_concat) simp
  moreover have "sublist (''Content-Transfer-Encoding: quoted-printable '' @ CRLF)
     (fst (Format ev (example_email enc)))"
    unfolding c by (rule sublist_concat) simp
  moreover have "length (emailBodies (example_email enc)) = 1"
    by (simp add: example_email_fields)
  moreover from out assms(2) have "\<exists>body.
     fst (Format ev (example_email enc)) =
       ''To: a@x.com '' @ CRLF @
       ''From: b@x.com '' @ CRLF @
       ''Subject: Hi '' @ CRLF @
       header ''Date'' (now_RFC1123Z ev) @
       ''Content-Type: multipart/alternative; '' @ CRLF @
       '' boundary='' @ [DQ] @ ''=_'' @ fst (MessageID ev (example_email enc)) @ [DQ] @
       '' '' @ CRLF @
       ''MIME-Version: 1.0 '' @ CRLF @
       CRLF @ ''--=_'' @ fst (MessageID ev (example_email enc)) @ CRLF @
       ''Content-Type: text/plain; charset=utf-8 '' @ CRLF @
       ''Content-Transfer-Encoding: quoted-printable '' @ CRLF @
       CRLF @ body @ CRLF \<and>
     decode body = ''Hello''"
    by blast
  ultimately show ?thesis by (intro conjI)
qed

theorem example_message_output_witness:
  "TransferEncodingType plain_quotedPrintable = ''quoted-printable'' \<and>
   plain_decode (Encode plain_quotedPrintable ''Hello'') = ''Hello'' \<and>
   sublist (''To: a@x.com '' @ CRLF)
     (fst (Format sample_env (example_email plain_quotedPrintable))) \<and>
   sublist (''Content-Transfer-Encoding: quoted-printable '' @ CRLF)
     (fst (Format sample_env (example_email plain_quotedPrintable)))"
proof -
  have l: "TransferEncodingType plain_quotedPrintable = ''quoted-printable''"
    by (simp add: plain_quotedPrintable_def)
  have d: "plain_decode (Encode plain_quotedPrintable ''Hello'') = ''Hello''"
    by (simp add: plain_quotedPrintable_def)
  note t = example_message_output
    [where enc = plain_quotedPrintable and decode = plain_decode and ev = sample_env, OF l d]
  from t have "sublist (''To: a@x.com '' @ CRLF)
      (fst (Format sample_env (example_email plain_quotedPrintable)))"
    by (elim conjE)
  moreover from t have "sublist (''Content-Transfer-Encoding: quoted-printable '' @ CRLF)
      (fst (Format sample_env (example_email plain_quotedPrintable)))"
    by (elim conjE)
  ultimately show ?thesis using l d
    by (intro conjI)
qed

theorem example_message_output_counterexample:
  "\<not> sublist (''To: a@x.com'' @ CRLF)
        (fst (Format sample_env (example_email plain_quotedPrintable)))"
  by code_simp

subsection \<open>Sending\<close>

text \<open>
  C8. For every message and every transport, \<^verbatim>\<open>Send\<close> is one call of the transport,
  on the address and the credential it was given, the sender, the To list and the output
  of \<^verbatim>\<open>Format\<close>: it returns the transport's error as it is and leaves the world as
  that one call leaves it. With a transport that records its calls, exactly one call is
  recorded, and the outcome comes back unchanged.
\<close>

theorem Send_delegates:
  "Send ev smtp_SendMail addr a email w =
     ((fst (smtp_SendMail addr a (From email) (To email) (fst (Format ev email)) w), email),
      snd (smtp_SendMail addr a (From email) (To email) (fst (Format ev email)) w)) \<and>
   Send ev (recording_transport outcome) addr a email calls =
     ((outcome, email),
      calls @ [(addr, a, From email, To email, fst (Format ev email))])"
  by (simp add: Send_def Let_def case_prod_beta Format_email recording_transport_def)

theorem Send_delegates_witness:
  "Send sample_env (recording_transport (Some ''550 rejected'')) ''mail.x.com:25'' ()
     (example_email plain_quotedPrintable) [] =
   ((Some ''550 rejected'', example_email plain_quotedPrintable),
    [(''mail.x.com:25'', (), ''b@x.com'', [''a@x.com''],
      fst (Format sample_env (example_email plain_quotedPrintable)))])"
  using Send_delegates
    [where ev = sample_env and outcome = "Some ''550 rejected''" and addr = "''mail.x.com:25''"
       and a = "()" and email = "example_email plain_quotedPrintable" and calls = "[]",
     THEN conjunct2]
  by (simp add: example_email_fields)

subsection \<open>Frame\<close>

text \<open>
  C9. For every message, \<^verbatim>\<open>Format\<close> and \<^verbatim>\<open>MessageID\<close> leave the message as it was:
  the To, Cc and Bcc lists, the sender, the subject, the list of body parts and the
  encoder are the same after the call as before.
\<close>

theorem Format_MessageID_frame:
  "snd (Format ev email) = email \<and> snd (MessageID ev email) = email \<and>
   To (snd (Format ev email)) = To email \<and>
   Cc (snd (Format ev email)) = Cc email \<and>
   Bcc (snd (Format ev email)) = Bcc email \<and>
   From (snd (Format ev email)) = From email \<and>
   Subject (snd (Format ev email)) = Subject email \<and>
   emailBodies (snd (Format ev email)) = emailBodies email \<and>
   Email.encoder (snd (Format ev email)) = Email.encoder email"
  by (simp add: Format_email MessageID_def)

subsection \<open>Mailboxes\<close>

text \<open>
  C10. \<^verbatim>\<open>FormatMailbox\<close> returns the address unchanged when the name is empty, and
  otherwise the name, a space, and the address in angle brackets.
\<close>

theorem FormatMailbox_spec:
  "(name = [] \<longrightarrow> FormatMailbox address name = address) \<and>
   (name \<noteq> [] \<longrightarrow> FormatMailbox address name = name @ '' <'' @ address @ ''>'')"
  by (simp add: FormatMailbox_def)

theorem FormatMailbox_spec_witness:
  "FormatMailbox ''a@x.com'' [] = ''a@x.com'' \<and>
   ''Ann'' \<noteq> [] \<and> FormatMailbox ''a@x.com'' ''Ann'' = ''Ann <a@x.com>''"
  using FormatMailbox_spec [of "[]" "''a@x.com''"] FormatMailbox_spec [of "''Ann''" "''a@x.com''"]
  by simp

end
